theory Spec2Isabelle
  imports Main "HOL-Library.Word" "HOL-Library.Sublist"
begin

section \<open>JavaScript values used by the services\<close>

text \<open>
  A JavaScript string is a sequence of UTF-16 code units. Source literals are ASCII and are
  written with \<open>js\<close>. A \<open>Buffer\<close> is a sequence of bytes.
\<close>

type_synonym jschar = "16 word"
type_synonym jsstring = "jschar list"
type_synonym buffer = "8 word list"

definition js :: "string \<Rightarrow> jsstring" where
  "js s = map of_char s"

text \<open>
  \<open>String.prototype.trim\<close> removes the ECMAScript WhiteSpace and LineTerminator code points
  from both ends; all of them are single code units.
\<close>

definition isWhiteSpace :: "jschar \<Rightarrow> bool" where
  "isWhiteSpace c =
     (c = 0x0009 \<or> c = 0x000A \<or> c = 0x000B \<or> c = 0x000C \<or> c = 0x000D \<or> c = 0x0020 \<or>
      c = 0x00A0 \<or> c = 0x1680 \<or> (0x2000 \<le> c \<and> c \<le> 0x200A) \<or> c = 0x2028 \<or> c = 0x2029 \<or>
      c = 0x202F \<or> c = 0x205F \<or> c = 0x3000 \<or> c = 0xFEFF)"

definition trim :: "jsstring \<Rightarrow> jsstring" where
  "trim s = rev (dropWhile isWhiteSpace (rev (dropWhile isWhiteSpace s)))"

text \<open>\<open>a || b\<close> on an optional string: \<open>undefined\<close> and the empty string are falsy.\<close>

definition orElse :: "jsstring option \<Rightarrow> jsstring \<Rightarrow> jsstring" where
  "orElse a b = (case a of None \<Rightarrow> b | Some s \<Rightarrow> if s = [] then b else s)"

text \<open>
  Thrown values: an Axios error carries \<open>code\<close>, \<open>response?.status\<close> and \<open>message\<close>; any other
  \<open>Error\<close> carries its message; anything else that is thrown is not an \<open>Error\<close>.
\<close>

datatype js_error =
    AxiosError "jsstring option" "nat option" jsstring
  | Error jsstring
  | NonError

fun isAxiosError :: "js_error \<Rightarrow> bool" where
  "isAxiosError (AxiosError c s m) = True"
| "isAxiosError (Error m) = False"
| "isAxiosError NonError = False"

fun error_code :: "js_error \<Rightarrow> jsstring option" where
  "error_code (AxiosError c s m) = c"
| "error_code (Error m) = None"
| "error_code NonError = None"

fun response_status :: "js_error \<Rightarrow> nat option" where
  "response_status (AxiosError c s m) = s"
| "response_status (Error m) = None"
| "response_status NonError = None"

text \<open>\<open>error instanceof Error ? error.message : 'Unknown error'\<close>\<close>

fun messageOf :: "js_error \<Rightarrow> jsstring" where
  "messageOf (AxiosError c s m) = m"
| "messageOf (Error m) = m"
| "messageOf NonError = js ''Unknown error''"

text \<open>The outcome of one promise under \<open>Promise.allSettled\<close>.\<close>

datatype 'a settled = Fulfilled 'a | Rejected js_error

section \<open>External collaborators\<close>

text \<open>
  The body and options of \<open>axios.post(apiUrl + '/api/generate', ...)\<close>. A text-model request has
  no \<open>images\<close> field.
\<close>

record request =
  req_model :: jsstring
  req_prompt :: jsstring
  req_images :: "jsstring list option"
  req_timeout :: nat

text \<open>
  What the outside world answers during one run: \<open>Tesseract.recognize\<close> gives \<open>data.text\<close> or
  throws; the HTTP call gives \<open>response.data.response\<close> (possibly absent) or throws;
  \<open>Buffer.toString('base64')\<close> encodes the image.
\<close>

record env =
  recognize :: "buffer \<Rightarrow> jsstring \<Rightarrow> js_error + jsstring"
  post :: "request \<Rightarrow> js_error + jsstring option"
  toBase64 :: "buffer \<Rightarrow> jsstring"

text \<open>The fields of \<open>config\<close> that the services read.\<close>

record config =
  ollama_model :: jsstring
  ollama_timeout :: nat
  ollama_visionTimeout :: nat
  debug_saveFiles :: bool

text \<open>
  Results. The field \<open>timeSeconds\<close> of both interfaces is a rounded wall-clock float and is
  left out.
\<close>

record LLMResult =
  summary :: jsstring

record OCRResult =
  ocr_text :: jsstring

text \<open>\<open>response.data.response ? response.data.response.trim() : ''\<close>\<close>

definition responseText :: "jsstring option \<Rightarrow> jsstring" where
  "responseText r = (case r of None \<Rightarrow> [] | Some s \<Rightarrow> if s = [] then [] else trim s)"

definition ECONNABORTED :: jsstring where
  "ECONNABORTED = js ''ECONNABORTED''"

text \<open>The default parameter \<open>language = 'eng'\<close>, taken when the argument is \<open>undefined\<close>.\<close>

definition defaultLanguage :: "jsstring option \<Rightarrow> jsstring" where
  "defaultLanguage language = (case language of None \<Rightarrow> js ''eng'' | Some l \<Rightarrow> l)"

section \<open>DualOCRService\<close>

definition runTesseractOCR :: "env \<Rightarrow> buffer \<Rightarrow> jsstring \<Rightarrow> jsstring settled" where
  "runTesseractOCR E imageBuffer language =
     (case recognize E imageBuffer language of
        Inl e \<Rightarrow> Rejected e
      | Inr txt \<Rightarrow> Fulfilled (trim txt))"

definition visionOCRRequest :: "env \<Rightarrow> buffer \<Rightarrow> jsstring \<Rightarrow> nat \<Rightarrow> request" where
  "visionOCRRequest E imageBuffer visionModel tmo =
     \<lparr>req_model = visionModel,
      req_prompt = js ''Extract all text from this image. Return only the raw text without any formatting or additional comments.'',
      req_images = Some [toBase64 E imageBuffer],
      req_timeout = tmo\<rparr>"

definition runVisionOCR :: "env \<Rightarrow> buffer \<Rightarrow> jsstring \<Rightarrow> nat \<Rightarrow> jsstring settled" where
  "runVisionOCR E imageBuffer visionModel tmo =
     (case post E (visionOCRRequest E imageBuffer visionModel tmo) of
        Inl e \<Rightarrow> Rejected e
      | Inr r \<Rightarrow> Fulfilled (responseText r))"

definition primaryLabel :: jsstring where
  "primaryLabel = js ''=== PRIMARY OCR (Tesseract) ===''"

definition supplementaryLabel :: jsstring where
  "supplementaryLabel = js ''=== SUPPLEMENTARY OCR (Vision Model) ===''"

definition combineOCRResults :: "jsstring \<Rightarrow> jsstring \<Rightarrow> jsstring" where
  "combineOCRResults tesseractText visionText =
     (if tesseractText = [] \<and> visionText \<noteq> [] then visionText
      else if tesseractText \<noteq> [] \<and> visionText = [] then tesseractText
      else primaryLabel @ js ''\<newline>'' @ tesseractText @ js ''\<newline>\<newline>'' @
           supplementaryLabel @ js ''\<newline>'' @ visionText)"

definition defaultAnalysisPrompt :: jsstring where
  "defaultAnalysisPrompt = js ''Analyze the following document text and extract key information as structured JSON. Return only valid JSON without markdown formatting.''"

text \<open>The fixed part of \<open>contextualPrompt\<close>, between \<open>finalPrompt\<close> and \<open>combinedText\<close>.\<close>

definition dualContext :: jsstring where
  "dualContext = js ''\<newline>\<newline>IMPORTANT: The text below comes from TWO different OCR methods applied to the SAME document:\<newline>1. Tesseract OCR (fast, may have typos/formatting issues)\<newline>2. Vision Model OCR (slower, better structured)\<newline>\<newline>Both are reading the SAME document. Cross-reference both outputs to extract the most accurate information.\<newline>When there are discrepancies, prefer the cleaner, more structured output.\<newline>\<newline>''"

definition contextualPrompt :: "jsstring \<Rightarrow> jsstring \<Rightarrow> jsstring" where
  "contextualPrompt finalPrompt combinedText = finalPrompt @ dualContext @ combinedText"

text \<open>The \<open>catch\<close> block of \<open>DualOCRService.analyzeImage\<close>: what is rethrown for a caught value.\<close>

definition dualCatch :: "js_error \<Rightarrow> js_error" where
  "dualCatch e =
     (if isAxiosError e \<and> error_code e = Some ECONNABORTED
        then Error (js ''Dual OCR processing request timed out'')
      else if isAxiosError e \<and> response_status e = Some 404
        then Error (js ''Model not found - ensure both vision and text models are available'')
      else Error (js ''Failed to process with dual OCR: '' @ messageOf e))"

text \<open>The text taken from a settled branch: a rejected branch leaves the initial \<open>''\<close>.\<close>

definition settledText :: "jsstring settled \<Rightarrow> jsstring" where
  "settledText r = (case r of Fulfilled v \<Rightarrow> v | Rejected e \<Rightarrow> [])"

definition useVisionModel :: "jsstring option \<Rightarrow> jsstring" where
  "useVisionModel visionModel = orElse visionModel (js ''gemma3:4b'')"

definition visionTimeout :: nat where
  "visionTimeout = 80000"

text \<open>\<open>combinedText\<close> as \<open>analyzeImage\<close> computes it from the two settled branches.\<close>

definition dualCombinedText :: "env \<Rightarrow> buffer \<Rightarrow> jsstring \<Rightarrow> jsstring option \<Rightarrow> jsstring" where
  "dualCombinedText E imageBuffer language visionModel =
     (let tesseractResult = runTesseractOCR E imageBuffer language;
          visionResult = runVisionOCR E imageBuffer (useVisionModel visionModel) visionTimeout;
          tesseractText = settledText tesseractResult;
          visionText = settledText visionResult
      in combineOCRResults tesseractText visionText)"

definition analysisRequest :: "config \<Rightarrow> jsstring option \<Rightarrow> jsstring option \<Rightarrow> jsstring \<Rightarrow> request" where
  "analysisRequest C analysisPrompt textModel combinedText =
     (let useTextModel = orElse textModel (ollama_model C);
          finalPrompt = orElse analysisPrompt defaultAnalysisPrompt
      in \<lparr>req_model = useTextModel,
          req_prompt = contextualPrompt finalPrompt combinedText,
          req_images = None,
          req_timeout = ollama_timeout C\<rparr>)"

text \<open>
  \<open>DualOCRService.analyzeImage\<close>. The result is what the promise settles to, paired with the
  HTTP requests issued, in order: the vision request of the parallel phase, then the
  text-model request if the code gets there. \<open>language\<close> defaults to \<open>'eng'\<close>.
\<close>

definition analyzeImage ::
  "env \<Rightarrow> config \<Rightarrow> buffer \<Rightarrow> jsstring option \<Rightarrow> jsstring option \<Rightarrow> jsstring option \<Rightarrow>
   jsstring option \<Rightarrow> (js_error + LLMResult) \<times> request list" where
  "analyzeImage E C imageBuffer analysisPrompt language visionModel textModel =
     (let lang = defaultLanguage language;
          visionCall = visionOCRRequest E imageBuffer (useVisionModel visionModel) visionTimeout;
          combinedText = dualCombinedText E imageBuffer lang visionModel
      in if combinedText = []
         then (Inl (dualCatch (Error (js ''Both OCR methods failed to extract any text''))),
               [visionCall])
         else
           (let rq = analysisRequest C analysisPrompt textModel combinedText
            in (case post E rq of
                  Inl e \<Rightarrow> Inl (dualCatch e)
                | Inr r \<Rightarrow>
                    (let analysis = responseText r
                     in if analysis = []
                        then Inl (dualCatch (Error (js ''Text model returned empty analysis'')))
                        else Inr \<lparr>summary = analysis\<rparr>),
                [visionCall, rq])))"

definition textModelCalls :: "request list \<Rightarrow> request list" where
  "textModelCalls rs = filter (\<lambda>r. req_images r = None) rs"

section \<open>VisionService and LLMService\<close>

text \<open>The \<open>catch\<close> block of \<open>VisionService.analyzeImage\<close>.\<close>

definition visionTimedOut :: js_error where
  "visionTimedOut =
     Error (js ''Vision model request timed out - try a smaller image or increase timeout'')"

definition visionModelNotFound :: "jsstring \<Rightarrow> js_error" where
  "visionModelNotFound visionModel =
     Error (js ''Vision model '' @ [0x27] @ visionModel @ [0x27] @
            js '' not found - please pull it with '' @ [0x27] @ js ''ollama pull '' @
            visionModel @ [0x27])"

definition visionFailed :: "js_error \<Rightarrow> js_error" where
  "visionFailed e = Error (js ''Failed to analyze image with vision model: '' @ messageOf e)"

definition visionCatch :: "jsstring \<Rightarrow> js_error \<Rightarrow> js_error" where
  "visionCatch visionModel e =
     (if isAxiosError e \<and> error_code e = Some ECONNABORTED then visionTimedOut
      else if isAxiosError e \<and> response_status e = Some 404 then visionModelNotFound visionModel
      else visionFailed e)"

definition visionRequest :: "env \<Rightarrow> config \<Rightarrow> buffer \<Rightarrow> jsstring \<Rightarrow> jsstring option \<Rightarrow> request" where
  "visionRequest E C imageBuffer prompt model =
     \<lparr>req_model = orElse model (js ''gemma3:4b''),
      req_prompt = prompt,
      req_images = Some [toBase64 E imageBuffer],
      req_timeout = ollama_visionTimeout C\<rparr>"

definition VisionService_analyzeImage ::
  "env \<Rightarrow> config \<Rightarrow> buffer \<Rightarrow> jsstring \<Rightarrow> jsstring option \<Rightarrow> js_error + LLMResult" where
  "VisionService_analyzeImage E C imageBuffer prompt model =
     (let visionModel = orElse model (js ''gemma3:4b'')
      in case post E (visionRequest E C imageBuffer prompt model) of
           Inl e \<Rightarrow> Inl (visionCatch visionModel e)
         | Inr r \<Rightarrow>
             (let result = responseText r
              in if result = []
                 then Inl (visionCatch visionModel
                             (Error (js ''Empty analysis received from vision model'')))
                 else Inr \<lparr>summary = result\<rparr>))"

text \<open>\<open>LLMService.analyzeText\<close> and its \<open>catch\<close> block.\<close>

definition llmCatch :: "jsstring \<Rightarrow> js_error \<Rightarrow> js_error" where
  "llmCatch llmModel e =
     (if isAxiosError e \<and> error_code e = Some ECONNABORTED
        then Error (js ''LLM request timed out - try a shorter document or increase timeout'')
      else if isAxiosError e \<and> response_status e = Some 404
        then Error (js ''Model '' @ [0x27] @ llmModel @ [0x27] @
                    js '' not found - please pull it with '' @ [0x27] @ js ''ollama pull '' @
                    llmModel @ [0x27])
      else Error (js ''Failed to analyze text with Ollama: '' @ messageOf e))"

definition analyzeText ::
  "env \<Rightarrow> config \<Rightarrow> jsstring \<Rightarrow> jsstring \<Rightarrow> jsstring option \<Rightarrow> js_error + LLMResult" where
  "analyzeText E C txt prompt model =
     (let llmModel = orElse model (ollama_model C);
          fullPrompt = prompt @ js ''\<newline>\<newline>'' @ txt
      in case post E \<lparr>req_model = llmModel, req_prompt = fullPrompt, req_images = None,
                      req_timeout = ollama_timeout C\<rparr> of
           Inl e \<Rightarrow> Inl (llmCatch llmModel e)
         | Inr r \<Rightarrow>
             (let summ = responseText r
              in if summ = []
                 then Inl (llmCatch llmModel (Error (js ''Empty analysis received from Ollama'')))
                 else Inr \<lparr>summary = summ\<rparr>))"

section \<open>OCRService\<close>

text \<open>
  Paths are lists of components. The file-system state is the set of paths that exist in the
  scratch area; debug artifacts go to \<open>config.debug.dir\<close>, outside of it, and are represented
  by whether the writing call throws. \<open>fs_env\<close> holds what each file-system and process call
  of one run does: \<open>None\<close> or \<open>Inr\<close> when it succeeds, the thrown value otherwise.
  \<open>pdftocairo\<close> exits zero with (\<open>Inr True\<close>) or without (\<open>Inr False\<close>) an output file.
\<close>

type_synonym path = "string list"

record fs_env =
  mkdir_debug :: "js_error option"
  mkdtemp :: "js_error + path"
  writeFile_pdf :: "js_error option"
  pdftocairo :: "js_error + bool"
  readFile_png :: "js_error + buffer"
  copyFile_debug :: "js_error option"
  writeFile_debug :: "js_error option"
  rm :: "js_error option"

text \<open>\<open>fs.rm(dir, {recursive: true, force: true})\<close> when it succeeds.\<close>

definition rmRecursive :: "path \<Rightarrow> path set \<Rightarrow> path set" where
  "rmRecursive d F = {p \<in> F. \<not> prefix d p}"

definition extractTextFromImage ::
  "env \<Rightarrow> fs_env \<Rightarrow> config \<Rightarrow> buffer \<Rightarrow> jsstring option \<Rightarrow> js_error + OCRResult" where
  "extractTextFromImage E X C imageBuffer language =
     (let lang = defaultLanguage language;
          rethrow = (\<lambda>e. Error (js ''Failed to extract text from image: '' @ messageOf e))
      in case recognize E imageBuffer lang of
           Inl e \<Rightarrow> Inl (rethrow e)
         | Inr txt \<Rightarrow>
             if txt = [] \<or> trim txt = []
             then Inl (rethrow (Error (js ''No text extracted from image'')))
             else if debug_saveFiles C
             then (case mkdir_debug X of
                     Some e \<Rightarrow> Inl (rethrow e)
                   | None \<Rightarrow>
                       (case writeFile_debug X of
                          Some e \<Rightarrow> Inl (rethrow e)
                        | None \<Rightarrow> Inr \<lparr>ocr_text = trim txt\<rparr>))
             else Inr \<lparr>ocr_text = trim txt\<rparr>)"

text \<open>
  The \<open>try\<close> block of \<open>extractTextFromPDF\<close>: the value of \<open>tempDir\<close> when the block is left,
  the value returned or thrown, and the file system.
\<close>

definition pdfTryBlock ::
  "env \<Rightarrow> fs_env \<Rightarrow> config \<Rightarrow> jsstring \<Rightarrow> path set \<Rightarrow>
   path option \<times> (js_error + OCRResult) \<times> path set" where
  "pdfTryBlock E X C lang F =
     (case (if debug_saveFiles C then mkdir_debug X else None) of
        Some e \<Rightarrow> (None, Inl e, F)
      | None \<Rightarrow>
     (case mkdtemp X of
        Inl e \<Rightarrow> (None, Inl e, F)
      | Inr tempDir \<Rightarrow>
     (let F1 = insert tempDir F in
      case writeFile_pdf X of
        Some e \<Rightarrow> (Some tempDir, Inl e, F1)
      | None \<Rightarrow>
     (let F2 = insert (tempDir @ [''input.pdf'']) F1 in
      case pdftocairo X of
        Inl e \<Rightarrow> (Some tempDir, Inl e, F2)
      | Inr wrote \<Rightarrow>
     (let pngPath = tempDir @ [''page.png''];
          F3 = (if wrote then insert pngPath F2 else F2) in
      case (if pngPath \<in> F3 then readFile_png X
            else Inl (Error (js ''ENOENT: no such file or directory''))) of
        Inl e \<Rightarrow> (Some tempDir, Inl e, F3)
      | Inr pngBuffer \<Rightarrow>
     (case (if debug_saveFiles C then copyFile_debug X else None) of
        Some e \<Rightarrow> (Some tempDir, Inl e, F3)
      | None \<Rightarrow>
     (case recognize E pngBuffer lang of
        Inl e \<Rightarrow> (Some tempDir, Inl e, F3)
      | Inr txt \<Rightarrow>
          if txt = [] \<or> trim txt = []
          then (Some tempDir, Inl (Error (js ''No text extracted from PDF image'')), F3)
          else (case (if debug_saveFiles C then writeFile_debug X else None) of
                  Some e \<Rightarrow> (Some tempDir, Inl e, F3)
                | None \<Rightarrow> (Some tempDir, Inr \<lparr>ocr_text = trim txt\<rparr>, F3)))))))))"

text \<open>The \<open>finally\<close> block shared by the PDF paths: a failing \<open>fs.rm\<close> is logged and swallowed.\<close>

definition cleanupTempDir :: "fs_env \<Rightarrow> path option \<Rightarrow> path set \<Rightarrow> path set" where
  "cleanupTempDir X tempDir F =
     (case tempDir of
        None \<Rightarrow> F
      | Some d \<Rightarrow> (case rm X of None \<Rightarrow> rmRecursive d F | Some e \<Rightarrow> F))"

definition extractTextFromPDF ::
  "env \<Rightarrow> fs_env \<Rightarrow> config \<Rightarrow> buffer \<Rightarrow> jsstring option \<Rightarrow> path set \<Rightarrow>
   (js_error + OCRResult) \<times> path set" where
  "extractTextFromPDF E X C pdfBuffer language F =
     (let lang = defaultLanguage language
      in case pdfTryBlock E X C lang F of
           (tempDir, r, F') \<Rightarrow>
             (case r of
                Inl e \<Rightarrow> Inl (Error (js ''Failed to extract text from PDF: '' @ messageOf e))
              | Inr v \<Rightarrow> Inr v,
              cleanupTempDir X tempDir F'))"

section \<open>DocumentVLController\<close>

record upload =
  mimetype :: jsstring
  file_buffer :: buffer

record http_request =
  req_file :: "upload option"
  x_prompt :: "jsstring option"
  x_model :: "jsstring option"
  x_language :: "jsstring option"

text \<open>
  What the handler does with the response: an error body \<open>{message, code}\<close> or a success body
  \<open>{analysis, metadata: {textLength, model, fileType}}\<close> with its status, or \<open>next(error)\<close>.
\<close>

datatype reply =
    ErrorJson nat jsstring jsstring
  | SuccessJson nat jsstring nat jsstring jsstring
  | Next js_error

text \<open>Step 2 of the handler: the dual-OCR analysis and the response built from it.\<close>

definition vlRespond :: "env \<Rightarrow> config \<Rightarrow> buffer \<Rightarrow> jsstring \<Rightarrow> http_request \<Rightarrow> jsstring \<Rightarrow> reply" where
  "vlRespond E C imageBuffer prompt rq fileType =
     (let model = x_model rq;
          language = orElse (x_language rq) (js ''eng'')
      in case fst (analyzeImage E C imageBuffer (Some prompt) (Some language) model None) of
           Inl e \<Rightarrow> Next e
         | Inr dualOCRResult \<Rightarrow>
             SuccessJson 200 (summary dualOCRResult) (length (summary dualOCRResult))
               (js ''Tesseract + '' @ orElse model (js ''gemma3:4b'') @ js '' + llama3.2:3b'')
               fileType)"

definition vlTryBlock ::
  "env \<Rightarrow> fs_env \<Rightarrow> config \<Rightarrow> http_request \<Rightarrow> path set \<Rightarrow> path option \<times> reply \<times> path set" where
  "vlTryBlock E X C rq F =
     (case req_file rq of
        None \<Rightarrow> (None, ErrorJson 400 (js ''No file uploaded'') (js ''MISSING_FILE''), F)
      | Some f \<Rightarrow>
     (let prompt = orElse (x_prompt rq)
            (js ''Extract all text and data from this document and return as structured JSON.'');
          fileType = mimetype f in
      if fileType = js ''application/pdf'' then
     (case mkdtemp X of
        Inl e \<Rightarrow> (None, Next e, F)
      | Inr tempDir \<Rightarrow>
     (let F1 = insert tempDir F in
      case writeFile_pdf X of
        Some e \<Rightarrow> (Some tempDir, Next e, F1)
      | None \<Rightarrow>
     (let F2 = insert (tempDir @ [''input.pdf'']) F1 in
      case pdftocairo X of
        Inl e \<Rightarrow> (Some tempDir, Next e, F2)
      | Inr wrote \<Rightarrow>
     (let pngPath = tempDir @ [''page.png''];
          F3 = (if wrote then insert pngPath F2 else F2) in
      case (if pngPath \<in> F3 then readFile_png X
            else Inl (Error (js ''ENOENT: no such file or directory''))) of
        Inl e \<Rightarrow> (Some tempDir, Next e, F3)
      | Inr imageBuffer \<Rightarrow>
     (case mkdir_debug X of
        Some e \<Rightarrow> (Some tempDir, Next e, F3)
      | None \<Rightarrow>
     (case writeFile_debug X of
        Some e \<Rightarrow> (Some tempDir, Next e, F3)
      | None \<Rightarrow> (Some tempDir, vlRespond E C imageBuffer prompt rq fileType, F3)))))))
      else if prefix (js ''image/'') fileType
        then (None, vlRespond E C (file_buffer f) prompt rq fileType, F)
      else (None, ErrorJson 400 (js ''Unsupported file type: '' @ fileType)
                    (js ''UNSUPPORTED_FILE_TYPE''), F)))"

definition analyzeDocument ::
  "env \<Rightarrow> fs_env \<Rightarrow> config \<Rightarrow> http_request \<Rightarrow> path set \<Rightarrow> reply \<times> path set" where
  "analyzeDocument E X C rq F =
     (case vlTryBlock E X C rq F of
        (tempDir, r, F') \<Rightarrow> (r, cleanupTempDir X tempDir F'))"

section \<open>Image optimisation in HybridService and MagicOCRService\<close>




section \<open>Concrete runs\<close>

definition exampleConfig :: config where
  "exampleConfig =
     \<lparr>ollama_model = js ''llama3.2:3b'', ollama_timeout = 60000,
      ollama_visionTimeout = 1200000, debug_saveFiles = False\<rparr>"

text \<open>Tesseract throws and the vision request times out; the text model answers.\<close>

definition bothFailEnv :: env where
  "bothFailEnv =
     \<lparr>recognize = (\<lambda>b l. Inl (Error (js ''Error attempting to read image.''))),
      post = (\<lambda>r. if req_images r = None then Inr (Some (js ''{}''))
                   else Inl (AxiosError (Some ECONNABORTED) None
                               (js ''timeout of 80000ms exceeded''))),
      toBase64 = (\<lambda>b. [])\<rparr>"

text \<open>Both branches read text; the text model answers with padding around its output.\<close>

definition bothTextEnv :: env where
  "bothTextEnv =
     \<lparr>recognize = (\<lambda>b l. Inr (js '' INVOICE #123\<newline>'')),
      post = (\<lambda>r. if req_images r = None then Inr (Some (js '' {total: 5}\<newline>''))
                   else Inr (Some (js ''Invoice 123''))),
      toBase64 = (\<lambda>b. [])\<rparr>"

text \<open>The scenario of the specification: OCR reads a line, the vision model returns nothing.\<close>

definition scenarioEnv :: env where
  "scenarioEnv =
     \<lparr>recognize = (\<lambda>b l. Inr (js ''INVOICE #123'')),
      post = (\<lambda>r. if req_images r = None then Inr (Some (js ''{}'')) else Inr (Some [])),
      toBase64 = (\<lambda>b. [])\<rparr>"

text \<open>Tesseract reads a line and the vision request times out; the text model answers.\<close>

definition visionTimeoutEnv :: env where
  "visionTimeoutEnv =
     \<lparr>recognize = (\<lambda>b l. Inr (js ''INVOICE #123'')),
      post = (\<lambda>r. if req_images r = None then Inr (Some (js ''{}''))
                   else Inl (AxiosError (Some ECONNABORTED) None
                               (js ''timeout of 80000ms exceeded''))),
      toBase64 = (\<lambda>b. [])\<rparr>"

text \<open>A blank page: both engines return white space only.\<close>

definition blankEnv :: env where
  "blankEnv =
     \<lparr>recognize = (\<lambda>b l. Inr (js ''  \<newline>'')),
      post = (\<lambda>r. Inr (Some (js '' ''))),
      toBase64 = (\<lambda>b. [])\<rparr>"

text \<open>Every HTTP request runs into the Axios timeout.\<close>

definition timeoutEnv :: env where
  "timeoutEnv =
     \<lparr>recognize = (\<lambda>b l. Inr (js ''INVOICE #123'')),
      post = (\<lambda>r. Inl (AxiosError (Some ECONNABORTED) None
                          (js ''timeout of 1200000ms exceeded''))),
      toBase64 = (\<lambda>b. [])\<rparr>"

text \<open>File-system behaviour: everything succeeds; and the same with a failing \<open>fs.rm\<close>.\<close>

definition scratchDir :: path where
  "scratchDir = [''tmp'', ''doc-intel-Ab12Cd'']"

definition okFs :: fs_env where
  "okFs =
     \<lparr>mkdir_debug = None, mkdtemp = Inr scratchDir, writeFile_pdf = None,
      pdftocairo = Inr True, readFile_png = Inr [], copyFile_debug = None,
      writeFile_debug = None, rm = None\<rparr>"

definition rmFailsFs :: fs_env where
  "rmFailsFs = okFs\<lparr>rm := Some (Error (js ''EBUSY: resource busy or locked''))\<rparr>"

definition pdfUpload :: http_request where
  "pdfUpload =
     \<lparr>req_file = Some \<lparr>mimetype = js ''application/pdf'', file_buffer = []\<rparr>,
      x_prompt = None, x_model = None, x_language = None\<rparr>"

section \<open>Facts about strings\<close>

lemma trim_Nil: "trim [] = []"
  by (simp add: trim_def)

lemma trimmed_start:
  "dropWhile P (rev (dropWhile P (rev (dropWhile P s)))) =
   rev (dropWhile P (rev (dropWhile P s)))"
proof (cases "rev (dropWhile P (rev (dropWhile P s)))")
  case Nil
  show ?thesis unfolding Nil by simp
next
  case (Cons x xs)
  have "dropWhile P s =
        rev (dropWhile P (rev (dropWhile P s))) @ rev (takeWhile P (rev (dropWhile P s)))"
    by (metis rev_append rev_rev_ident takeWhile_dropWhile_id)
  with Cons have "dropWhile P s \<noteq> []" and "hd (dropWhile P s) = x"
    by (metis append_is_Nil_conv list.distinct(1), metis hd_append2 list.distinct(1) list.sel(1))
  then have "\<not> P x"
    using hd_dropWhile [of P s] by simp
  with Cons show ?thesis by simp
qed

lemma trim_idem: "trim (trim s) = trim s"
  by (simp add: trim_def trimmed_start dropWhile_idem)

lemma responseText_trimmed: "trim (responseText r) = responseText r"
  by (cases r) (simp_all add: responseText_def trim_idem trim_Nil)

lemma trim_invoice: "trim (js '' INVOICE #123\<newline>'') = js ''INVOICE #123''"
  by (simp add: trim_def js_def isWhiteSpace_def)

lemma responseText_braces: "responseText (Some (js ''{}'')) = js ''{}''"
  by (simp add: responseText_def trim_def js_def isWhiteSpace_def)

lemma responseText_invoice: "responseText (Some (js ''Invoice 123'')) = js ''Invoice 123''"
  by (simp add: responseText_def trim_def js_def isWhiteSpace_def)

lemma trim_invoice_plain: "trim (js ''INVOICE #123'') = js ''INVOICE #123''"
  by (simp add: trim_def js_def isWhiteSpace_def)

lemma responseText_empty: "responseText (Some []) = []"
  by (simp add: responseText_def)

lemma no_label_in_defaultAnalysisPrompt: "\<not> sublist supplementaryLabel defaultAnalysisPrompt"
  by (simp add: supplementaryLabel_def defaultAnalysisPrompt_def js_def sublist_Cons_right)

lemma no_label_in_invoice: "\<not> sublist supplementaryLabel (js ''INVOICE #123'')"
  by (simp add: supplementaryLabel_def js_def sublist_Cons_right)

lemma trim_blank: "trim (js ''  \<newline>'') = []"
  by (simp add: trim_def js_def isWhiteSpace_def)

lemma responseText_blank: "responseText (Some (js '' '')) = []"
  by (simp add: responseText_def trim_def js_def isWhiteSpace_def)

lemma responseText_total: "responseText (Some (js '' {total: 5}\<newline>'')) = js ''{total: 5}''"
  by (simp add: responseText_def trim_def js_def isWhiteSpace_def)

lemma extractTextFromImage_bothTextEnv:
  "extractTextFromImage bothTextEnv okFs exampleConfig [] None = Inr \<lparr>ocr_text = js ''INVOICE #123''\<rparr>"
proof -
  have n: "js '' INVOICE #123\<newline>'' \<noteq> []" "js ''INVOICE #123'' \<noteq> []"
    by (simp_all add: js_def)
  show ?thesis
    by (simp add: extractTextFromImage_def bothTextEnv_def exampleConfig_def trim_invoice n)
qed

lemma sublist_through_separator:
  assumes "c \<notin> set M" and "L \<noteq> []" and "hd L = c" and "last L = c" and "length L < length M"
  shows "sublist L (P @ M @ T) \<longleftrightarrow> sublist L P \<or> sublist L T"
proof
  assume "sublist L P \<or> sublist L T"
  then show "sublist L (P @ M @ T)"
    by (metis sublist_order.order_trans sublist_append_rightI sublist_append_leftI append_assoc)
next
  assume a: "sublist L (P @ M @ T)"
  have inner: "sublist L T" if "sublist L (M @ T)"
  proof -
    from that consider "sublist L M" | "sublist L T"
      | xs1 xs2 where "L = xs1 @ xs2" "suffix xs1 M" "prefix xs2 T"
      by (auto simp: sublist_append)
    then show ?thesis
    proof cases
      case 1
      then have "set L \<subseteq> set M" by (rule set_mono_sublist)
      with assms show ?thesis by (metis hd_in_set subsetD)
    next
      case 2
      then show ?thesis .
    next
      case 3
      show ?thesis
      proof (cases "xs1 = []")
        case True
        with 3 show ?thesis by auto
      next
        case False
        with 3 have "hd L \<in> set M"
          by (metis hd_append2 hd_in_set set_mono_suffix subsetD)
        with assms show ?thesis by simp
      qed
    qed
  qed
  from a consider "sublist L P" | "sublist L (M @ T)"
    | xs1 xs2 where "L = xs1 @ xs2" "suffix xs1 P" "prefix xs2 (M @ T)"
    by (auto simp: sublist_append)
  then show "sublist L P \<or> sublist L T"
  proof cases
    case 1
    then show ?thesis by simp
  next
    case 2
    then show ?thesis using inner by simp
  next
    case 3
    show ?thesis
    proof (cases "xs2 = []")
      case True
      with 3 show ?thesis by auto
    next
      case False
      from 3 have "prefix xs2 M \<or> (\<exists>us. xs2 = M @ us \<and> prefix us T)"
        by (simp add: prefix_append)
      then show ?thesis
      proof
        assume "prefix xs2 M"
        with False 3 have "last L \<in> set M"
          by (metis last_appendR last_in_set set_mono_prefix subsetD)
        with assms show ?thesis by simp
      next
        assume "\<exists>us. xs2 = M @ us \<and> prefix us T"
        with 3 have "length M \<le> length L" by auto
        with assms show ?thesis by simp
      qed
    qed
  qed
qed

lemma supplementaryLabel_in_prompt:
  "sublist supplementaryLabel (P @ dualContext @ T) \<longleftrightarrow>
     sublist supplementaryLabel P \<or> sublist supplementaryLabel T"
proof (rule sublist_through_separator [where c = 61])
  show "(61::jschar) \<notin> set dualContext"
    by (simp add: dualContext_def js_def)
  show "supplementaryLabel \<noteq> []" "hd supplementaryLabel = 61" "last supplementaryLabel = 61"
    by (simp_all add: supplementaryLabel_def js_def)
  show "length supplementaryLabel < length dualContext"
    by (simp add: dualContext_def supplementaryLabel_def js_def)
qed

section \<open>The merge and the orchestration\<close>

lemma combineOCRResults_nonempty: "combineOCRResults t v \<noteq> []"
  by (simp add: combineOCRResults_def primaryLabel_def js_def)

lemma dualCombinedText_nonempty: "dualCombinedText E img lang vm \<noteq> []"
  by (simp add: dualCombinedText_def Let_def combineOCRResults_nonempty)

text \<open>Since the merged text is never empty, the guard before the analysis step never fires.\<close>

lemma analyzeImage_unfold:
  "analyzeImage E C img p language vm tm =
     (case post E (analysisRequest C p tm (dualCombinedText E img (defaultLanguage language) vm)) of
        Inl e \<Rightarrow> Inl (dualCatch e)
      | Inr r \<Rightarrow>
          if responseText r = []
          then Inl (dualCatch (Error (js ''Text model returned empty analysis'')))
          else Inr \<lparr>summary = responseText r\<rparr>,
      [visionOCRRequest E img (useVisionModel vm) visionTimeout,
       analysisRequest C p tm (dualCombinedText E img (defaultLanguage language) vm)])"
  by (simp add: analyzeImage_def Let_def dualCombinedText_nonempty split: sum.split)

lemma textModelCalls_dual:
  "textModelCalls (snd (analyzeImage E C img p language vm tm)) =
     [analysisRequest C p tm (dualCombinedText E img (defaultLanguage language) vm)]"
  by (simp add: analyzeImage_unfold textModelCalls_def visionOCRRequest_def analysisRequest_def
      Let_def)

lemma useVisionModel_None: "useVisionModel None = js ''gemma3:4b''"
  by (simp add: useVisionModel_def orElse_def)

text \<open>
  C1. When both extraction branches fail, the orchestration should fail with ``both methods
  failed'' and never call the text model. In the run below Tesseract throws and the vision
  request times out, yet the merged text is the two headings around empty texts, the text
  model is called once, and its answer is returned as a success.
\<close>

theorem both_failed_still_analyzed:
  "runTesseractOCR bothFailEnv [] (js ''eng'') =
     Rejected (Error (js ''Error attempting to read image.'')) \<and>
   runVisionOCR bothFailEnv [] (js ''gemma3:4b'') visionTimeout =
     Rejected (AxiosError (Some ECONNABORTED) None (js ''timeout of 80000ms exceeded'')) \<and>
   dualCombinedText bothFailEnv [] (js ''eng'') None =
     js ''=== PRIMARY OCR (Tesseract) ===\<newline>\<newline>\<newline>=== SUPPLEMENTARY OCR (Vision Model) ===\<newline>'' \<and>
   fst (analyzeImage bothFailEnv exampleConfig [] None None None None) =
     Inr \<lparr>summary = js ''{}''\<rparr> \<and>
   length (textModelCalls (snd (analyzeImage bothFailEnv exampleConfig [] None None None None))) = 1"
proof -
  have t: "runTesseractOCR bothFailEnv [] (js ''eng'') =
             Rejected (Error (js ''Error attempting to read image.''))"
    by (simp add: runTesseractOCR_def bothFailEnv_def)
  have v: "runVisionOCR bothFailEnv [] (js ''gemma3:4b'') visionTimeout =
             Rejected (AxiosError (Some ECONNABORTED) None (js ''timeout of 80000ms exceeded''))"
    by (simp add: runVisionOCR_def bothFailEnv_def visionOCRRequest_def)
  have c: "dualCombinedText bothFailEnv [] (js ''eng'') None = combineOCRResults [] []"
    by (simp add: dualCombinedText_def t v useVisionModel_None settledText_def)
  have l: "combineOCRResults [] [] =
             js ''=== PRIMARY OCR (Tesseract) ===\<newline>\<newline>\<newline>=== SUPPLEMENTARY OCR (Vision Model) ===\<newline>''"
    by (simp add: combineOCRResults_def primaryLabel_def supplementaryLabel_def js_def)
  have p: "post bothFailEnv (analysisRequest exampleConfig None None x) = Inr (Some (js ''{}''))"
    for x
    by (simp add: bothFailEnv_def analysisRequest_def)
  have n: "js ''{}'' \<noteq> []"
    by (simp add: js_def)
  have a: "fst (analyzeImage bothFailEnv exampleConfig [] None None None None) =
             Inr \<lparr>summary = js ''{}''\<rparr>"
    by (simp add: analyzeImage_unfold p responseText_braces n)
  show ?thesis
    using t v a by (simp add: c l textModelCalls_dual)
qed

text \<open>
  C2. When both branches produce non-empty text, the merged text is the primary heading, the
  Tesseract text, a blank line, the supplementary heading and the vision text, each text
  unchanged and in this order.
\<close>

theorem both_texts_concatenated:
  assumes "runTesseractOCR E img lang = Fulfilled t"
    and "runVisionOCR E img (useVisionModel vm) visionTimeout = Fulfilled v"
    and "t \<noteq> []" and "v \<noteq> []"
  shows "dualCombinedText E img lang vm =
           primaryLabel @ js ''\<newline>'' @ t @ js ''\<newline>\<newline>'' @ supplementaryLabel @
           js ''\<newline>'' @ v"
  using assms by (simp add: dualCombinedText_def settledText_def combineOCRResults_def)

theorem both_texts_concatenated_witness:
  "runTesseractOCR bothTextEnv [] (js ''eng'') = Fulfilled (js ''INVOICE #123'') \<and>
   runVisionOCR bothTextEnv [] (useVisionModel None) visionTimeout =
     Fulfilled (js ''Invoice 123'') \<and>
   dualCombinedText bothTextEnv [] (js ''eng'') None =
     primaryLabel @ js ''\<newline>'' @ js ''INVOICE #123'' @ js ''\<newline>\<newline>'' @ supplementaryLabel @
     js ''\<newline>'' @ js ''Invoice 123''"
proof -
  have t: "runTesseractOCR bothTextEnv [] (js ''eng'') = Fulfilled (js ''INVOICE #123'')"
    by (simp add: runTesseractOCR_def bothTextEnv_def trim_invoice)
  have v: "runVisionOCR bothTextEnv [] (useVisionModel None) visionTimeout =
             Fulfilled (js ''Invoice 123'')"
    by (simp add: runVisionOCR_def bothTextEnv_def visionOCRRequest_def responseText_invoice)
  have n: "js ''INVOICE #123'' \<noteq> []" "js ''Invoice 123'' \<noteq> []"
    by (simp_all add: js_def)
  show ?thesis
    using both_texts_concatenated [OF t v n] t v by simp
qed

lemma defaultLanguage_None: "defaultLanguage None = js ''eng''"
  by (simp add: defaultLanguage_def)

lemma combine_single:
  "(t = []) \<noteq> (v = []) \<Longrightarrow> combineOCRResults t v = (if t = [] then v else t)"
  by (auto simp: combineOCRResults_def)

text \<open>The orchestration sees each branch only through the text taken from its outcome.\<close>

lemma analyzeImage_same_texts:
  assumes "post E' = post E" and "toBase64 E' = toBase64 E"
    and "settledText (runTesseractOCR E' img (defaultLanguage language)) =
         settledText (runTesseractOCR E img (defaultLanguage language))"
  shows "analyzeImage E' C img p language vm tm = analyzeImage E C img p language vm tm"
proof -
  have "visionOCRRequest E' img m k = visionOCRRequest E img m k" for m k
    by (simp add: visionOCRRequest_def assms)
  then have "runVisionOCR E' img m k = runVisionOCR E img m k" for m k
    by (simp add: runVisionOCR_def assms)
  then have "dualCombinedText E' img (defaultLanguage language) vm =
             dualCombinedText E img (defaultLanguage language) vm"
    by (simp add: dualCombinedText_def assms)
  then show ?thesis
    by (simp add: analyzeImage_unfold assms visionOCRRequest_def)
qed

lemma analyzeImage_vision_outcome:
  assumes "settledText (case y of Inl e \<Rightarrow> Rejected e | Inr r \<Rightarrow> Fulfilled (responseText r)) =
           settledText (runVisionOCR E img (useVisionModel vm) visionTimeout)"
  shows "analyzeImage
           (E\<lparr>post := (post E)(visionOCRRequest E img (useVisionModel vm) visionTimeout := y)\<rparr>)
           C img p language vm tm =
         analyzeImage E C img p language vm tm"
proof -
  let ?rq = "visionOCRRequest E img (useVisionModel vm) visionTimeout"
  let ?E' = "E\<lparr>post := (post E)(?rq := y)\<rparr>"
  have rq: "visionOCRRequest ?E' img m k = visionOCRRequest E img m k" for m k
    by (simp add: visionOCRRequest_def)
  have "settledText (runVisionOCR ?E' img (useVisionModel vm) visionTimeout) =
        settledText (runVisionOCR E img (useVisionModel vm) visionTimeout)"
    using assms by (simp add: runVisionOCR_def rq)
  moreover have "runTesseractOCR ?E' img l = runTesseractOCR E img l" for l
    by (simp add: runTesseractOCR_def)
  ultimately have c: "dualCombinedText ?E' img (defaultLanguage language) vm =
             dualCombinedText E img (defaultLanguage language) vm"
    by (simp add: dualCombinedText_def)
  have "analysisRequest C p tm x \<noteq> ?rq" for x
    by (simp add: analysisRequest_def visionOCRRequest_def Let_def)
  then have "post ?E' (analysisRequest C p tm x) = post E (analysisRequest C p tm x)" for x
    by simp
  then show ?thesis
    by (simp add: analyzeImage_unfold c rq)
qed

lemma analyzeImage_vision_reason:
  assumes "post E (visionOCRRequest E img (useVisionModel vm) visionTimeout) = Inl e"
  shows "analyzeImage
           (E\<lparr>post := (post E)(visionOCRRequest E img (useVisionModel vm) visionTimeout := Inl e')\<rparr>)
           C img p language vm tm =
         analyzeImage E C img p language vm tm"
  by (rule analyzeImage_vision_outcome) (simp add: runVisionOCR_def assms settledText_def)

text \<open>
  C3. When exactly one branch yields non-empty text (the other was rejected or gave the
  empty string), the merged text is the surviving text unchanged; the text model receives
  the instruction, the fixed explanation and that text and nothing else, so no supplementary
  heading is put in (the heading occurs in what is sent only where the instruction or the
  surviving text already has it); and the outcome of the run, result and requests, is the
  same whatever the reason of the failed branch was, so the reason does not reach the result.
\<close>

theorem single_survivor_verbatim:
  fixes E C img p language vm tm
  defines "t \<equiv> settledText (runTesseractOCR E img (defaultLanguage language))"
    and "v \<equiv> settledText (runVisionOCR E img (useVisionModel vm) visionTimeout)"
  assumes one: "(t = []) \<noteq> (v = [])"
  shows "dualCombinedText E img (defaultLanguage language) vm = (if t = [] then v else t) \<and>
         map req_prompt (textModelCalls (snd (analyzeImage E C img p language vm tm))) =
           [orElse p defaultAnalysisPrompt @ dualContext @ (if t = [] then v else t)] \<and>
         (sublist supplementaryLabel
            (orElse p defaultAnalysisPrompt @ dualContext @ (if t = [] then v else t)) \<longleftrightarrow>
          sublist supplementaryLabel (orElse p defaultAnalysisPrompt) \<or>
          sublist supplementaryLabel (if t = [] then v else t)) \<and>
         (\<forall>e e'. recognize E img (defaultLanguage language) = Inl e \<longrightarrow>
            analyzeImage (E\<lparr>recognize := \<lambda>b l. Inl e'\<rparr>) C img p language vm tm =
            analyzeImage E C img p language vm tm) \<and>
         (\<forall>e e'. post E (visionOCRRequest E img (useVisionModel vm) visionTimeout) = Inl e \<longrightarrow>
            analyzeImage
              (E\<lparr>post := (post E)(visionOCRRequest E img (useVisionModel vm) visionTimeout := Inl e')\<rparr>)
              C img p language vm tm =
            analyzeImage E C img p language vm tm)"
proof -
  have c: "dualCombinedText E img (defaultLanguage language) vm = (if t = [] then v else t)"
    using one combine_single [of t v] by (simp add: dualCombinedText_def t_def v_def)
  have r: "map req_prompt (textModelCalls (snd (analyzeImage E C img p language vm tm))) =
           [orElse p defaultAnalysisPrompt @ dualContext @ (if t = [] then v else t)]"
    by (simp add: textModelCalls_dual c analysisRequest_def Let_def contextualPrompt_def)
  have n1: "analyzeImage (E\<lparr>recognize := \<lambda>b l. Inl e'\<rparr>) C img p language vm tm =
            analyzeImage E C img p language vm tm"
    if "recognize E img (defaultLanguage language) = Inl e" for e e'
    by (rule analyzeImage_same_texts) (simp_all add: runTesseractOCR_def that settledText_def)
  show ?thesis
    using c r n1 analyzeImage_vision_reason supplementaryLabel_in_prompt by blast
qed

theorem single_survivor_verbatim_witness:
  "runVisionOCR visionTimeoutEnv [] (useVisionModel None) visionTimeout =
     Rejected (AxiosError (Some ECONNABORTED) None (js ''timeout of 80000ms exceeded'')) \<and>
   dualCombinedText visionTimeoutEnv [] (defaultLanguage None) None = js ''INVOICE #123'' \<and>
   map req_prompt
     (textModelCalls (snd (analyzeImage visionTimeoutEnv exampleConfig [] None None None None))) =
     [defaultAnalysisPrompt @ dualContext @ js ''INVOICE #123''] \<and>
   \<not> sublist supplementaryLabel (defaultAnalysisPrompt @ dualContext @ js ''INVOICE #123'') \<and>
   analyzeImage
     (visionTimeoutEnv\<lparr>post := (post visionTimeoutEnv)
        (visionOCRRequest visionTimeoutEnv [] (useVisionModel None) visionTimeout :=
           Inl (AxiosError None (Some 404) (js ''Request failed with status code 404'')))\<rparr>)
     exampleConfig [] None None None None =
   analyzeImage visionTimeoutEnv exampleConfig [] None None None None \<and>
   dualCombinedText scenarioEnv [] (defaultLanguage None) None = js ''INVOICE #123''"
proof -
  have n: "js ''INVOICE #123'' \<noteq> []"
    by (simp add: js_def)
  have o: "orElse None defaultAnalysisPrompt = defaultAnalysisPrompt"
    by (simp add: orElse_def)
  have t: "settledText (runTesseractOCR visionTimeoutEnv [] (defaultLanguage None)) =
             js ''INVOICE #123''"
    by (simp add: runTesseractOCR_def visionTimeoutEnv_def settledText_def trim_invoice_plain)
  have p: "post visionTimeoutEnv
             (visionOCRRequest visionTimeoutEnv [] (useVisionModel None) visionTimeout) =
           Inl (AxiosError (Some ECONNABORTED) None (js ''timeout of 80000ms exceeded''))"
    by (simp add: visionTimeoutEnv_def visionOCRRequest_def)
  have r: "runVisionOCR visionTimeoutEnv [] (useVisionModel None) visionTimeout =
             Rejected (AxiosError (Some ECONNABORTED) None (js ''timeout of 80000ms exceeded''))"
    by (simp add: runVisionOCR_def p)
  have v: "settledText (runVisionOCR visionTimeoutEnv [] (useVisionModel None) visionTimeout) = []"
    by (simp add: r settledText_def)
  have one: "(settledText (runTesseractOCR visionTimeoutEnv [] (defaultLanguage None)) = []) \<noteq>
             (settledText (runVisionOCR visionTimeoutEnv [] (useVisionModel None) visionTimeout) = [])"
    by (simp add: t v n)
  note a = single_survivor_verbatim [OF one, of exampleConfig None None]
  have a1: "dualCombinedText visionTimeoutEnv [] (defaultLanguage None) None = js ''INVOICE #123''"
    using a by (simp add: t n)
  have a2: "map req_prompt
     (textModelCalls (snd (analyzeImage visionTimeoutEnv exampleConfig [] None None None None))) =
     [defaultAnalysisPrompt @ dualContext @ js ''INVOICE #123'']"
    using a by (simp add: t n o)
  have a3: "\<not> sublist supplementaryLabel (defaultAnalysisPrompt @ dualContext @ js ''INVOICE #123'')"
    using a no_label_in_defaultAnalysisPrompt no_label_in_invoice by (simp add: t n o)
  have a4: "analyzeImage
     (visionTimeoutEnv\<lparr>post := (post visionTimeoutEnv)
        (visionOCRRequest visionTimeoutEnv [] (useVisionModel None) visionTimeout :=
           Inl (AxiosError None (Some 404) (js ''Request failed with status code 404'')))\<rparr>)
     exampleConfig [] None None None None =
   analyzeImage visionTimeoutEnv exampleConfig [] None None None None"
    using a p by blast
  have t': "settledText (runTesseractOCR scenarioEnv [] (defaultLanguage None)) = js ''INVOICE #123''"
    by (simp add: runTesseractOCR_def scenarioEnv_def settledText_def trim_invoice_plain)
  have v': "settledText (runVisionOCR scenarioEnv [] (useVisionModel None) visionTimeout) = []"
    by (simp add: runVisionOCR_def scenarioEnv_def visionOCRRequest_def settledText_def
        responseText_empty)
  have one': "(settledText (runTesseractOCR scenarioEnv [] (defaultLanguage None)) = []) \<noteq>
              (settledText (runVisionOCR scenarioEnv [] (useVisionModel None) visionTimeout) = [])"
    by (simp add: t' v' n)
  have b1: "dualCombinedText scenarioEnv [] (defaultLanguage None) None = js ''INVOICE #123''"
    using single_survivor_verbatim [OF one', of exampleConfig None None] by (simp add: t' n)
  show ?thesis
    using r a1 a2 a3 a4 b1 by simp
qed

text \<open>
  C7. In every run that reaches the analysis step, the single prompt sent to the text model
  is (a) the analysis instruction, which is the caller's when one is given and non-empty and
  the default instruction otherwise, then (b) the explanation that the text below comes from
  two different OCR methods applied to the same document and that, where they differ, the
  cleaner, more structured output is to be preferred, then (c) the merged text at the end.
\<close>

theorem dual_prompt_structure:
  assumes "dualCombinedText E img (defaultLanguage language) vm \<noteq> []"
  shows "map req_prompt (textModelCalls (snd (analyzeImage E C img p language vm tm))) =
           [orElse p defaultAnalysisPrompt @
            js ''\<newline>\<newline>IMPORTANT: The text below comes from TWO different OCR methods applied to the SAME document:\<newline>1. Tesseract OCR (fast, may have typos/formatting issues)\<newline>2. Vision Model OCR (slower, better structured)\<newline>\<newline>Both are reading the SAME document. Cross-reference both outputs to extract the most accurate information.\<newline>When there are discrepancies, prefer the cleaner, more structured output.\<newline>\<newline>'' @
            dualCombinedText E img (defaultLanguage language) vm] \<and>
         (\<forall>q. p = Some q \<and> q \<noteq> [] \<longrightarrow> orElse p defaultAnalysisPrompt = q) \<and>
         (p = None \<or> p = Some [] \<longrightarrow>
            orElse p defaultAnalysisPrompt =
            js ''Analyze the following document text and extract key information as structured JSON. Return only valid JSON without markdown formatting.'')"
  by (auto simp: textModelCalls_dual analysisRequest_def Let_def contextualPrompt_def
      dualContext_def defaultAnalysisPrompt_def orElse_def)

theorem dual_prompt_structure_witness:
  "dualCombinedText bothTextEnv [] (defaultLanguage None) None \<noteq> [] \<and>
   map req_prompt (textModelCalls (snd (analyzeImage bothTextEnv exampleConfig []
       (Some (js ''List the totals.'')) None None None))) =
     [js ''List the totals.'' @
      js ''\<newline>\<newline>IMPORTANT: The text below comes from TWO different OCR methods applied to the SAME document:\<newline>1. Tesseract OCR (fast, may have typos/formatting issues)\<newline>2. Vision Model OCR (slower, better structured)\<newline>\<newline>Both are reading the SAME document. Cross-reference both outputs to extract the most accurate information.\<newline>When there are discrepancies, prefer the cleaner, more structured output.\<newline>\<newline>'' @
      dualCombinedText bothTextEnv [] (defaultLanguage None) None]"
proof -
  have n: "dualCombinedText bothTextEnv [] (defaultLanguage None) None \<noteq> []"
    by (rule dualCombinedText_nonempty)
  have q: "js ''List the totals.'' \<noteq> []"
    by (simp add: js_def)
  have o: "orElse (Some (js ''List the totals.'')) defaultAnalysisPrompt = js ''List the totals.''"
    using q by (simp add: orElse_def)
  show ?thesis
    using dual_prompt_structure [OF n, of exampleConfig "Some (js ''List the totals.'')" None] n
    by (simp add: o)
qed

text \<open>
  C4 (amended). When the engine's text is empty after trimming, the stand-alone adapters
  fail: \<open>OCRService.extractTextFromImage\<close> with ``No text extracted from image'' and
  \<open>VisionService.analyzeImage\<close> with ``Empty analysis received from vision model'' (both
  wrapped by their \<open>catch\<close> blocks). The two branches of the dual service instead succeed with
  the empty string, and the orchestration treats that exactly like a failed branch: the run
  is the same as if the branch had thrown.
\<close>

theorem empty_extraction_outcomes:
  "(recognize E img (defaultLanguage language) = Inr txt \<and> trim txt = [] \<longrightarrow>
      runTesseractOCR E img (defaultLanguage language) = Fulfilled [] \<and>
      analyzeImage E C img p language vm tm =
        analyzeImage (E\<lparr>recognize := \<lambda>b l. Inl e\<rparr>) C img p language vm tm \<and>
      extractTextFromImage E X C img language =
        Inl (Error (js ''Failed to extract text from image: '' @ js ''No text extracted from image''))) \<and>
   (post E (visionOCRRequest E img (useVisionModel vm) visionTimeout) = Inr r \<and>
    responseText r = [] \<longrightarrow>
      runVisionOCR E img (useVisionModel vm) visionTimeout = Fulfilled [] \<and>
      analyzeImage E C img p language vm tm =
        analyzeImage
          (E\<lparr>post := (post E)(visionOCRRequest E img (useVisionModel vm) visionTimeout := Inl e)\<rparr>)
          C img p language vm tm) \<and>
   (post E (visionRequest E C img q m) = Inr r \<and> responseText r = [] \<longrightarrow>
      VisionService_analyzeImage E C img q m =
        Inl (visionFailed (Error (js ''Empty analysis received from vision model''))))"
proof (intro conjI impI)
  assume a: "recognize E img (defaultLanguage language) = Inr txt \<and> trim txt = []"
  then show "runTesseractOCR E img (defaultLanguage language) = Fulfilled []"
    by (simp add: runTesseractOCR_def)
  show "analyzeImage E C img p language vm tm =
        analyzeImage (E\<lparr>recognize := \<lambda>b l. Inl e\<rparr>) C img p language vm tm"
    by (rule analyzeImage_same_texts [symmetric])
      (simp_all add: runTesseractOCR_def a settledText_def)
  from a show "extractTextFromImage E X C img language =
        Inl (Error (js ''Failed to extract text from image: '' @ js ''No text extracted from image''))"
    by (simp add: extractTextFromImage_def)
next
  assume a: "post E (visionOCRRequest E img (useVisionModel vm) visionTimeout) = Inr r \<and>
    responseText r = []"
  then show "runVisionOCR E img (useVisionModel vm) visionTimeout = Fulfilled []"
    by (simp add: runVisionOCR_def)
  show "analyzeImage E C img p language vm tm =
        analyzeImage
          (E\<lparr>post := (post E)(visionOCRRequest E img (useVisionModel vm) visionTimeout := Inl e)\<rparr>)
          C img p language vm tm"
    by (rule analyzeImage_vision_outcome [symmetric])
      (simp add: runVisionOCR_def a settledText_def)
next
  assume "post E (visionRequest E C img q m) = Inr r \<and> responseText r = []"
  then show "VisionService_analyzeImage E C img q m =
        Inl (visionFailed (Error (js ''Empty analysis received from vision model'')))"
    by (simp add: VisionService_analyzeImage_def visionCatch_def)
qed

theorem empty_extraction_outcomes_witness:
  "recognize blankEnv [] (defaultLanguage None) = Inr (js ''  \<newline>'') \<and>
   trim (js ''  \<newline>'') = [] \<and>
   runTesseractOCR blankEnv [] (defaultLanguage None) = Fulfilled [] \<and>
   extractTextFromImage blankEnv okFs exampleConfig [] None =
     Inl (Error (js ''Failed to extract text from image: '' @ js ''No text extracted from image''))"
proof -
  have r: "recognize blankEnv [] (defaultLanguage None) = Inr (js ''  \<newline>'')"
    by (simp add: blankEnv_def)
  show ?thesis
    using empty_extraction_outcomes [of blankEnv "[]" None "js ''  \<newline>''" exampleConfig None None None NonError okFs
        None "[]" None] r trim_blank
    by simp
qed

text \<open>
  C4 as stated fails for the branches of the dual service: on a blank page, where Tesseract
  and the vision model return white space only, both branches are fulfilled with the empty
  string.
\<close>

theorem blank_page_branches_fulfilled:
  "recognize blankEnv [] (js ''eng'') = Inr (js ''  \<newline>'') \<and>
   trim (js ''  \<newline>'') = [] \<and>
   runTesseractOCR blankEnv [] (js ''eng'') = Fulfilled [] \<and>
   post blankEnv (visionOCRRequest blankEnv [] (js ''gemma3:4b'') visionTimeout) =
     Inr (Some (js '' '')) \<and>
   responseText (Some (js '' '')) = [] \<and>
   runVisionOCR blankEnv [] (js ''gemma3:4b'') visionTimeout = Fulfilled []"
  by (simp add: runTesseractOCR_def runVisionOCR_def blankEnv_def trim_blank responseText_blank)

section \<open>Error classification\<close>

lemma visionTimedOut_not_visionModelNotFound: "visionTimedOut \<noteq> visionModelNotFound vm"
  by (simp add: visionTimedOut_def visionModelNotFound_def js_def)

lemma visionTimedOut_not_visionFailed: "visionTimedOut \<noteq> visionFailed e"
  by (simp add: visionTimedOut_def visionFailed_def js_def)

lemma visionCatch_timeout:
  "visionCatch vm (AxiosError (Some ECONNABORTED) st msg) = visionTimedOut"
  by (simp add: visionCatch_def)

lemma visionCatch_not_found:
  "cd \<noteq> Some ECONNABORTED \<Longrightarrow>
     visionCatch vm (AxiosError cd (Some 404) msg) = visionModelNotFound vm"
  by (simp add: visionCatch_def)

lemma dualCatch_timeout:
  "dualCatch (AxiosError (Some ECONNABORTED) st msg) =
     Error (js ''Dual OCR processing request timed out'')"
  by (simp add: dualCatch_def)

lemma dualCatch_not_found:
  "cd \<noteq> Some ECONNABORTED \<Longrightarrow>
     dualCatch (AxiosError cd (Some 404) msg) =
       Error (js ''Model not found - ensure both vision and text models are available'')"
  by (simp add: dualCatch_def)

lemma dual_timeout_distinct:
  "js ''Dual OCR processing request timed out'' \<noteq>
     js ''Model not found - ensure both vision and text models are available''"
  "js ''Dual OCR processing request timed out'' \<noteq> js ''Failed to process with dual OCR: '' @ x"
  by (simp_all add: js_def)

lemma analyzeImage_text_model_throws:
  "post E (analysisRequest C p tm (dualCombinedText E img (defaultLanguage language) vm)) = Inl e \<Longrightarrow>
     fst (analyzeImage E C img p language vm tm) = Inl (dualCatch e)"
  by (simp add: analyzeImage_unfold)

lemma dualCombinedText_vision_rejected:
  "post E (visionOCRRequest E img (useVisionModel vm) visionTimeout) = Inl e \<Longrightarrow>
     dualCombinedText E img lang vm =
       combineOCRResults (settledText (runTesseractOCR E img lang)) []"
  by (simp add: dualCombinedText_def runVisionOCR_def settledText_def)

text \<open>
  C8 (amended). A \<open>VisionService.analyzeImage\<close> call that runs into its timeout (an Axios
  error with code \<open>ECONNABORTED\<close>) fails with the timeout error, which differs from the
  model-not-found error raised for a 404 response and from every wrapped backend failure.
  In the dual service a failure of the vision branch, a timeout included, is not classified:
  the branch is rejected with the thrown value, the run goes on to the text model with what
  Tesseract read, and it is the same run whatever the vision failure was. The \<open>catch\<close> block
  of the dual service classifies a timeout or a 404 of the text-model call only.
\<close>

theorem vision_timeout_classified:
  "(post E (visionRequest E C img q m) = Inl (AxiosError (Some ECONNABORTED) st msg) \<longrightarrow>
      VisionService_analyzeImage E C img q m = Inl visionTimedOut) \<and>
   (cd \<noteq> Some ECONNABORTED \<and>
    post E (visionRequest E C img q m) = Inl (AxiosError cd (Some 404) msg) \<longrightarrow>
      VisionService_analyzeImage E C img q m =
        Inl (visionModelNotFound (orElse m (js ''gemma3:4b'')))) \<and>
   visionTimedOut =
     Error (js ''Vision model request timed out - try a smaller image or increase timeout'') \<and>
   visionTimedOut \<noteq> visionModelNotFound x \<and>
   visionTimedOut \<noteq> visionFailed e \<and>
   (post E (visionOCRRequest E img (useVisionModel vm) visionTimeout) = Inl e \<longrightarrow>
      runVisionOCR E img (useVisionModel vm) visionTimeout = Rejected e \<and>
      textModelCalls (snd (analyzeImage E C img p language vm tm)) =
        [analysisRequest C p tm
           (combineOCRResults (settledText (runTesseractOCR E img (defaultLanguage language))) [])] \<and>
      analyzeImage
        (E\<lparr>post := (post E)(visionOCRRequest E img (useVisionModel vm) visionTimeout := Inl e')\<rparr>)
        C img p language vm tm =
      analyzeImage E C img p language vm tm) \<and>
   (post E (analysisRequest C p tm (dualCombinedText E img (defaultLanguage language) vm)) =
      Inl (AxiosError (Some ECONNABORTED) st msg) \<longrightarrow>
      fst (analyzeImage E C img p language vm tm) =
        Inl (Error (js ''Dual OCR processing request timed out''))) \<and>
   (cd \<noteq> Some ECONNABORTED \<and>
    post E (analysisRequest C p tm (dualCombinedText E img (defaultLanguage language) vm)) =
      Inl (AxiosError cd (Some 404) msg) \<longrightarrow>
      fst (analyzeImage E C img p language vm tm) =
        Inl (Error (js ''Model not found - ensure both vision and text models are available''))) \<and>
   js ''Dual OCR processing request timed out'' \<noteq>
     js ''Model not found - ensure both vision and text models are available'' \<and>
   js ''Dual OCR processing request timed out'' \<noteq> js ''Failed to process with dual OCR: '' @ y"
proof -
  have dual: "runVisionOCR E img (useVisionModel vm) visionTimeout = Rejected e \<and>
      textModelCalls (snd (analyzeImage E C img p language vm tm)) =
        [analysisRequest C p tm
           (combineOCRResults (settledText (runTesseractOCR E img (defaultLanguage language))) [])] \<and>
      analyzeImage
        (E\<lparr>post := (post E)(visionOCRRequest E img (useVisionModel vm) visionTimeout := Inl e')\<rparr>)
        C img p language vm tm =
      analyzeImage E C img p language vm tm"
    if a: "post E (visionOCRRequest E img (useVisionModel vm) visionTimeout) = Inl e"
    using a analyzeImage_vision_reason [OF a]
    by (simp add: runVisionOCR_def textModelCalls_dual dualCombinedText_vision_rejected [OF a])
  have vis: "VisionService_analyzeImage E C img q m = Inl visionTimedOut"
    if "post E (visionRequest E C img q m) = Inl (AxiosError (Some ECONNABORTED) st msg)"
    using that by (simp add: VisionService_analyzeImage_def Let_def visionCatch_timeout)
  have nf: "VisionService_analyzeImage E C img q m =
              Inl (visionModelNotFound (orElse m (js ''gemma3:4b'')))"
    if "cd \<noteq> Some ECONNABORTED \<and>
        post E (visionRequest E C img q m) = Inl (AxiosError cd (Some 404) msg)"
    using that by (simp add: VisionService_analyzeImage_def Let_def visionCatch_not_found)
  have dt: "fst (analyzeImage E C img p language vm tm) =
              Inl (Error (js ''Dual OCR processing request timed out''))"
    if "post E (analysisRequest C p tm (dualCombinedText E img (defaultLanguage language) vm)) =
          Inl (AxiosError (Some ECONNABORTED) st msg)"
    using analyzeImage_text_model_throws [OF that] by (simp add: dualCatch_timeout)
  have dn: "fst (analyzeImage E C img p language vm tm) =
              Inl (Error (js ''Model not found - ensure both vision and text models are available''))"
    if "cd \<noteq> Some ECONNABORTED \<and>
        post E (analysisRequest C p tm (dualCombinedText E img (defaultLanguage language) vm)) =
          Inl (AxiosError cd (Some 404) msg)"
    using that analyzeImage_text_model_throws [of E C p tm img language vm "AxiosError cd (Some 404) msg"]
    by (simp add: dualCatch_not_found)
  show ?thesis
    using dual vis nf dt dn visionTimedOut_not_visionModelNotFound [of x]
      visionTimedOut_not_visionFailed [of e] dual_timeout_distinct(1) dual_timeout_distinct(2) [of y]
      visionTimedOut_def
    by blast
qed

theorem vision_timeout_classified_witness:
  "post timeoutEnv (visionRequest timeoutEnv exampleConfig [] (js ''Read it.'') None) =
     Inl (AxiosError (Some ECONNABORTED) None (js ''timeout of 1200000ms exceeded'')) \<and>
   VisionService_analyzeImage timeoutEnv exampleConfig [] (js ''Read it.'') None =
     Inl visionTimedOut \<and>
   post visionTimeoutEnv (visionOCRRequest visionTimeoutEnv [] (useVisionModel None) visionTimeout) =
     Inl (AxiosError (Some ECONNABORTED) None (js ''timeout of 80000ms exceeded'')) \<and>
   runVisionOCR visionTimeoutEnv [] (useVisionModel None) visionTimeout =
     Rejected (AxiosError (Some ECONNABORTED) None (js ''timeout of 80000ms exceeded''))"
proof -
  have p: "post timeoutEnv (visionRequest timeoutEnv exampleConfig [] (js ''Read it.'') None) =
     Inl (AxiosError (Some ECONNABORTED) None (js ''timeout of 1200000ms exceeded''))"
    by (simp add: timeoutEnv_def)
  have v: "post visionTimeoutEnv
             (visionOCRRequest visionTimeoutEnv [] (useVisionModel None) visionTimeout) =
           Inl (AxiosError (Some ECONNABORTED) None (js ''timeout of 80000ms exceeded''))"
    by (simp add: visionTimeoutEnv_def visionOCRRequest_def)
  have 1: "VisionService_analyzeImage timeoutEnv exampleConfig [] (js ''Read it.'') None =
             Inl visionTimedOut"
    using vision_timeout_classified [of timeoutEnv exampleConfig "[]" "js ''Read it.''" None None
        "js ''timeout of 1200000ms exceeded''"] p
    by blast
  have 2: "runVisionOCR visionTimeoutEnv [] (useVisionModel None) visionTimeout =
     Rejected (AxiosError (Some ECONNABORTED) None (js ''timeout of 80000ms exceeded''))"
    using vision_timeout_classified [where E = visionTimeoutEnv and img = "[]" and vm = None
        and e = "AxiosError (Some ECONNABORTED) None (js ''timeout of 80000ms exceeded'')"] v
    by blast
  show ?thesis
    using p v 1 2 by simp
qed

text \<open>
  C8 as stated fails in the dual service: the vision request times out, no timeout failure
  results, and the run succeeds on the Tesseract text.
\<close>

theorem dual_vision_timeout_absorbed:
  "post visionTimeoutEnv (visionOCRRequest visionTimeoutEnv [] (js ''gemma3:4b'') visionTimeout) =
     Inl (AxiosError (Some ECONNABORTED) None (js ''timeout of 80000ms exceeded'')) \<and>
   runVisionOCR visionTimeoutEnv [] (js ''gemma3:4b'') visionTimeout =
     Rejected (AxiosError (Some ECONNABORTED) None (js ''timeout of 80000ms exceeded'')) \<and>
   dualCombinedText visionTimeoutEnv [] (js ''eng'') None = js ''INVOICE #123'' \<and>
   fst (analyzeImage visionTimeoutEnv exampleConfig [] None None None None) =
     Inr \<lparr>summary = js ''{}''\<rparr>"
proof -
  have p: "post visionTimeoutEnv
             (visionOCRRequest visionTimeoutEnv [] (js ''gemma3:4b'') visionTimeout) =
           Inl (AxiosError (Some ECONNABORTED) None (js ''timeout of 80000ms exceeded''))"
    by (simp add: visionTimeoutEnv_def visionOCRRequest_def)
  have r: "runVisionOCR visionTimeoutEnv [] (js ''gemma3:4b'') visionTimeout =
             Rejected (AxiosError (Some ECONNABORTED) None (js ''timeout of 80000ms exceeded''))"
    by (simp add: runVisionOCR_def p)
  have t: "runTesseractOCR visionTimeoutEnv [] (js ''eng'') = Fulfilled (js ''INVOICE #123'')"
    by (simp add: runTesseractOCR_def visionTimeoutEnv_def trim_invoice_plain)
  have n: "js ''INVOICE #123'' \<noteq> []" "js ''{}'' \<noteq> []"
    by (simp_all add: js_def)
  have c: "dualCombinedText visionTimeoutEnv [] (js ''eng'') None = js ''INVOICE #123''"
    using n by (simp add: dualCombinedText_def useVisionModel_None t r settledText_def
        combineOCRResults_def)
  have q: "post visionTimeoutEnv (analysisRequest exampleConfig None None x) =
             Inr (Some (js ''{}''))" for x
    by (simp add: visionTimeoutEnv_def analysisRequest_def)
  have a: "fst (analyzeImage visionTimeoutEnv exampleConfig [] None None None None) =
             Inr \<lparr>summary = js ''{}''\<rparr>"
    by (simp add: analyzeImage_unfold q responseText_braces n)
  show ?thesis
    using p r c a by simp
qed

section \<open>Image optimisation\<close>







section \<open>Results of the extraction and analysis operations\<close>

lemma pdfTryBlock_result:
  "pdfTryBlock E X C lang F = (td, Inr r, F') \<Longrightarrow>
     ocr_text r \<noteq> [] \<and> trim (ocr_text r) = ocr_text r"
  by (auto simp: pdfTryBlock_def Let_def trim_idem split: option.splits sum.splits if_splits)

lemma extractTextFromPDF_result:
  "extractTextFromPDF E X C pdf language F = (Inr r, F') \<Longrightarrow>
     ocr_text r \<noteq> [] \<and> trim (ocr_text r) = ocr_text r"
  by (auto simp: extractTextFromPDF_def Let_def split: prod.splits sum.splits
      dest: pdfTryBlock_result)

lemma extractTextFromImage_result:
  "extractTextFromImage E X C img language = Inr r \<Longrightarrow>
     ocr_text r \<noteq> [] \<and> trim (ocr_text r) = ocr_text r"
  by (auto simp: extractTextFromImage_def Let_def trim_idem
      split: option.splits sum.splits if_splits)

lemma analyzeText_result:
  "analyzeText E C txt p m = Inr r \<Longrightarrow> summary r \<noteq> [] \<and> trim (summary r) = summary r"
  by (auto simp: analyzeText_def Let_def responseText_trimmed split: sum.splits if_splits)

lemma analyzeImage_result:
  "fst (analyzeImage E C img p language vm tm) = Inr r \<Longrightarrow>
     summary r \<noteq> [] \<and> trim (summary r) = summary r"
  by (auto simp: analyzeImage_unfold responseText_trimmed split: sum.splits if_splits)

text \<open>
  C10. Every successful result of \<open>extractTextFromPDF\<close>, \<open>extractTextFromImage\<close>,
  \<open>analyzeText\<close> and the dual-OCR \<open>analyzeImage\<close> carries a text or summary that is non-empty
  and equal to its own trim.
\<close>

theorem successful_results_trimmed:
  "(extractTextFromPDF E X C pdf language F = (Inr r1, F') \<longrightarrow>
      ocr_text r1 \<noteq> [] \<and> trim (ocr_text r1) = ocr_text r1) \<and>
   (extractTextFromImage E X C img language = Inr r2 \<longrightarrow>
      ocr_text r2 \<noteq> [] \<and> trim (ocr_text r2) = ocr_text r2) \<and>
   (analyzeText E C txt q m = Inr r3 \<longrightarrow>
      summary r3 \<noteq> [] \<and> trim (summary r3) = summary r3) \<and>
   (fst (analyzeImage E C img p language vm tm) = Inr r4 \<longrightarrow>
      summary r4 \<noteq> [] \<and> trim (summary r4) = summary r4)"
proof (intro conjI impI)
  assume "extractTextFromPDF E X C pdf language F = (Inr r1, F')"
  then show "ocr_text r1 \<noteq> []" and "trim (ocr_text r1) = ocr_text r1"
    by (simp_all add: extractTextFromPDF_result)
next
  assume "extractTextFromImage E X C img language = Inr r2"
  then show "ocr_text r2 \<noteq> []" and "trim (ocr_text r2) = ocr_text r2"
    by (simp_all add: extractTextFromImage_result)
next
  assume "analyzeText E C txt q m = Inr r3"
  then show "summary r3 \<noteq> []" and "trim (summary r3) = summary r3"
    by (simp_all add: analyzeText_result)
next
  assume "fst (analyzeImage E C img p language vm tm) = Inr r4"
  then show "summary r4 \<noteq> []" and "trim (summary r4) = summary r4"
    by (simp_all add: analyzeImage_result)
qed

theorem successful_results_trimmed_witness:
  "fst (analyzeImage bothTextEnv exampleConfig [] None None None None) =
     Inr \<lparr>summary = js ''{total: 5}''\<rparr> \<and>
   js ''{total: 5}'' \<noteq> [] \<and> trim (js ''{total: 5}'') = js ''{total: 5}'' \<and>
   extractTextFromImage bothTextEnv okFs exampleConfig [] None =
     Inr \<lparr>ocr_text = js ''INVOICE #123''\<rparr> \<and>
   js ''INVOICE #123'' \<noteq> [] \<and> trim (js ''INVOICE #123'') = js ''INVOICE #123''"
proof -
  have p: "post bothTextEnv (analysisRequest exampleConfig None None x) =
             Inr (Some (js '' {total: 5}\<newline>''))" for x
    by (simp add: bothTextEnv_def analysisRequest_def)
  have n: "js ''{total: 5}'' \<noteq> []"
    by (simp add: js_def)
  have a: "fst (analyzeImage bothTextEnv exampleConfig [] None None None None) =
             Inr \<lparr>summary = js ''{total: 5}''\<rparr>"
    by (simp add: analyzeImage_unfold p responseText_total n)
  show ?thesis
    using successful_results_trimmed [of bothTextEnv okFs exampleConfig "[]" None "{}" "\<lparr>ocr_text = []\<rparr>" "{}" "[]"
        "\<lparr>ocr_text = js ''INVOICE #123''\<rparr>" "[]" "[]" None "\<lparr>summary = []\<rparr>" None None None
        "\<lparr>summary = js ''{total: 5}''\<rparr>"]
      a extractTextFromImage_bothTextEnv
    by simp
qed

section \<open>Cleanup of the scratch directory\<close>

lemma rmRecursive_clean: "p \<in> rmRecursive d F \<Longrightarrow> \<not> prefix d p"
  by (simp add: rmRecursive_def)

lemma pdfTryBlock_tempDir:
  assumes "pdfTryBlock E X C lang F = (td, r, F')" and "mkdtemp X = Inr d"
  shows "td = Some d \<or> (td = None \<and> F' = F)"
  using assms
  by (auto simp: pdfTryBlock_def Let_def split: option.splits sum.splits if_splits)

lemma vlTryBlock_tempDir:
  assumes "vlTryBlock E X C rq F = (td, r, F')" and "mkdtemp X = Inr d"
  shows "td = Some d \<or> (td = None \<and> F' = F)"
  using assms
  by (auto simp: vlTryBlock_def Let_def split: option.splits sum.splits if_splits)

lemma cleanupTempDir_clean:
  assumes "td = Some d \<or> (td = None \<and> F' = F)" and "rm X = None" and "\<forall>p\<in>F. \<not> prefix d p"
  shows "\<forall>p\<in>cleanupTempDir X td F'. \<not> prefix d p"
  using assms by (auto simp: cleanupTempDir_def rmRecursive_def)

text \<open>
  C9 (amended). Let \<open>d\<close> be the directory that \<open>mkdtemp\<close> hands out, not present before the
  call. Whenever \<open>fs.rm\<close> itself does not fail, nothing at or below \<open>d\<close> exists after
  \<open>OCRService.extractTextFromPDF\<close> or \<open>DocumentVLController.analyzeDocument\<close>, whatever the
  other calls do and however the \<open>try\<close> block is left. A failure of \<open>fs.rm\<close> is logged and
  swallowed.
\<close>

theorem scratch_directory_removed:
  assumes "mkdtemp X = Inr d" and "rm X = None" and "\<forall>p\<in>F. \<not> prefix d p"
  shows "(\<forall>p\<in>snd (extractTextFromPDF E X C pdf language F). \<not> prefix d p) \<and>
         (\<forall>p\<in>snd (analyzeDocument E X C rq F). \<not> prefix d p)"
proof
  obtain td r F' where t: "pdfTryBlock E X C (defaultLanguage language) F = (td, r, F')"
    by (cases "pdfTryBlock E X C (defaultLanguage language) F") auto
  have "\<forall>p\<in>cleanupTempDir X td F'. \<not> prefix d p"
    using pdfTryBlock_tempDir [OF t assms(1)] assms(2,3) by (rule cleanupTempDir_clean)
  then show "\<forall>p\<in>snd (extractTextFromPDF E X C pdf language F). \<not> prefix d p"
    by (simp add: extractTextFromPDF_def t)
next
  obtain td r F' where t: "vlTryBlock E X C rq F = (td, r, F')"
    by (cases "vlTryBlock E X C rq F") auto
  have "\<forall>p\<in>cleanupTempDir X td F'. \<not> prefix d p"
    using vlTryBlock_tempDir [OF t assms(1)] assms(2,3) by (rule cleanupTempDir_clean)
  then show "\<forall>p\<in>snd (analyzeDocument E X C rq F). \<not> prefix d p"
    by (simp add: analyzeDocument_def t)
qed

theorem scratch_directory_removed_witness:
  "mkdtemp okFs = Inr scratchDir \<and> rm okFs = None \<and>
   scratchDir \<notin> snd (extractTextFromPDF bothTextEnv okFs exampleConfig [] None {}) \<and>
   scratchDir @ [''page.png''] \<notin> snd (extractTextFromPDF blankEnv okFs exampleConfig [] None {}) \<and>
   scratchDir \<notin> snd (analyzeDocument bothFailEnv okFs exampleConfig pdfUpload {})"
proof -
  have m: "mkdtemp okFs = Inr scratchDir" and r: "rm okFs = None"
    by (simp_all add: okFs_def)
  have e: "\<forall>p\<in>{}. \<not> prefix scratchDir p"
    by simp
  have 1: "\<forall>p\<in>snd (extractTextFromPDF bothTextEnv okFs exampleConfig [] None {}).
             \<not> prefix scratchDir p"
    using scratch_directory_removed [OF m r e] by blast
  have 2: "\<forall>p\<in>snd (extractTextFromPDF blankEnv okFs exampleConfig [] None {}).
             \<not> prefix scratchDir p"
    using scratch_directory_removed [OF m r e] by blast
  have 3: "\<forall>p\<in>snd (analyzeDocument bothFailEnv okFs exampleConfig pdfUpload {}).
             \<not> prefix scratchDir p"
    using scratch_directory_removed [OF m r e] by blast
  have "prefix scratchDir scratchDir" and "prefix scratchDir (scratchDir @ [''page.png''])"
    by simp_all
  with 1 2 3 m r show ?thesis
    by blast
qed

text \<open>
  C9 as stated fails when \<open>fs.rm\<close> throws: the error is caught and logged, the operation
  returns its result, and the directory with the PDF and the PNG stays.
\<close>

theorem failed_cleanup_leaves_directory:
  "fst (extractTextFromPDF bothTextEnv rmFailsFs exampleConfig [] None {}) =
     Inr \<lparr>ocr_text = js ''INVOICE #123''\<rparr> \<and>
   snd (extractTextFromPDF bothTextEnv rmFailsFs exampleConfig [] None {}) =
     {scratchDir, scratchDir @ [''input.pdf''], scratchDir @ [''page.png'']} \<and>
   snd (analyzeDocument bothTextEnv rmFailsFs exampleConfig pdfUpload {}) =
     {scratchDir, scratchDir @ [''input.pdf''], scratchDir @ [''page.png'']}"
proof -
  have n: "js '' INVOICE #123\<newline>'' \<noteq> []" "js ''INVOICE #123'' \<noteq> []"
    by (simp_all add: js_def)
  have a: "extractTextFromPDF bothTextEnv rmFailsFs exampleConfig [] None {} =
     (Inr \<lparr>ocr_text = js ''INVOICE #123''\<rparr>,
      {scratchDir, scratchDir @ [''input.pdf''], scratchDir @ [''page.png'']})"
    by (simp add: extractTextFromPDF_def pdfTryBlock_def cleanupTempDir_def rmFailsFs_def okFs_def
        exampleConfig_def bothTextEnv_def trim_invoice n Let_def insert_commute)
  have b: "snd (analyzeDocument bothTextEnv rmFailsFs exampleConfig pdfUpload {}) =
     {scratchDir, scratchDir @ [''input.pdf''], scratchDir @ [''page.png'']}"
    by (simp add: analyzeDocument_def vlTryBlock_def cleanupTempDir_def rmFailsFs_def okFs_def
        pdfUpload_def Let_def insert_commute)
  show ?thesis
    using a b by simp
qed

end
